theory Spec2Isabelle
  imports Complex_Main "HOL-Library.Word"
begin

section \<open>Numeric values\<close>

text \<open>
  The program computes with numpy \<open>float64\<close> values: IEEE 754 binary64 numbers. A finite
  value is modelled as the real number it denotes (\<open>Finite\<close>); the infinities and NaN,
  which numpy produces instead of raising (a division by zero gives a warning only),
  are values of their own. Every arithmetic operation computes the exact real result
  and rounds it with \<open>round64\<close>: to the nearest number with a 53-bit significand, ties
  to the even significand, with gradual underflow below \<open>2\<^sup>-\<^sup>1\<^sup>0\<^sup>2\<^sup>2\<close> and overflow to an
  infinity once the rounded magnitude reaches \<open>2\<^sup>1\<^sup>0\<^sup>2\<^sup>4\<close>. The two zeros are not
  distinguished: they compare equal, and no divisor in the program can be a negative
  zero (the divisors are lengths and sums of squares).
\<close>

datatype npfloat = Finite real | PInf | NInf | NaN

text \<open>Rounding a real to the nearest integer, a tie going to the even neighbour.\<close>

definition round_half_even :: "real \<Rightarrow> int" where
  "round_half_even y =
     (let f = \<lfloor>y\<rfloor>; d = y - of_int f
      in if d < 1 / 2 then f else if 1 / 2 < d then f + 1 else if even f then f else f + 1)"

text \<open>The exponent \<open>e\<close> with \<open>2\<^sup>e \<le> |x| < 2\<^sup>e\<^sup>+\<^sup>1\<close>.\<close>

definition binade :: "real \<Rightarrow> int" where
  "binade x = \<lfloor>log 2 \<bar>x\<bar>\<rfloor>"

definition round64 :: "real \<Rightarrow> npfloat" where
  "round64 x =
     (if x = 0 then Finite 0
      else
        let q = max (binade x) (- 1022) - 52;
            r = of_int (round_half_even (x / 2 powi q)) * 2 powi q
        in if 2 ^ 1024 \<le> \<bar>r\<bar> then (if 0 < x then PInf else NInf) else Finite r)"

definition signed_inf :: "real \<Rightarrow> npfloat" where
  "signed_inf s = (if 0 < s then PInf else if s < 0 then NInf else NaN)"

fun fneg :: "npfloat \<Rightarrow> npfloat" where
  "fneg (Finite a) = Finite (- a)"
| "fneg PInf = NInf"
| "fneg NInf = PInf"
| "fneg NaN = NaN"

fun fadd :: "npfloat \<Rightarrow> npfloat \<Rightarrow> npfloat" where
  "fadd (Finite a) (Finite b) = round64 (a + b)"
| "fadd NaN _ = NaN"
| "fadd _ NaN = NaN"
| "fadd PInf NInf = NaN"
| "fadd NInf PInf = NaN"
| "fadd PInf _ = PInf"
| "fadd _ PInf = PInf"
| "fadd NInf _ = NInf"
| "fadd _ NInf = NInf"

definition fsub :: "npfloat \<Rightarrow> npfloat \<Rightarrow> npfloat" where
  "fsub a b = fadd a (fneg b)"

fun fmul :: "npfloat \<Rightarrow> npfloat \<Rightarrow> npfloat" where
  "fmul (Finite a) (Finite b) = round64 (a * b)"
| "fmul NaN _ = NaN"
| "fmul _ NaN = NaN"
| "fmul (Finite a) PInf = signed_inf a"
| "fmul (Finite a) NInf = signed_inf (- a)"
| "fmul PInf (Finite b) = signed_inf b"
| "fmul NInf (Finite b) = signed_inf (- b)"
| "fmul PInf PInf = PInf"
| "fmul NInf NInf = PInf"
| "fmul PInf NInf = NInf"
| "fmul NInf PInf = NInf"

text \<open>numpy's \<open>true_divide\<close>: \<open>x / 0\<close> is an infinity with the sign of \<open>x\<close>, \<open>0 / 0\<close> is NaN.\<close>

fun fdiv :: "npfloat \<Rightarrow> npfloat \<Rightarrow> npfloat" where
  "fdiv (Finite a) (Finite b) = (if b = 0 then signed_inf a else round64 (a / b))"
| "fdiv NaN _ = NaN"
| "fdiv _ NaN = NaN"
| "fdiv (Finite a) PInf = Finite 0"
| "fdiv (Finite a) NInf = Finite 0"
| "fdiv PInf (Finite b) = (if b < 0 then NInf else PInf)"
| "fdiv NInf (Finite b) = (if b < 0 then PInf else NInf)"
| "fdiv PInf PInf = NaN"
| "fdiv PInf NInf = NaN"
| "fdiv NInf PInf = NaN"
| "fdiv NInf NInf = NaN"

fun fsqrt :: "npfloat \<Rightarrow> npfloat" where
  "fsqrt (Finite a) = (if a < 0 then NaN else round64 (sqrt a))"
| "fsqrt PInf = PInf"
| "fsqrt NInf = NaN"
| "fsqrt NaN = NaN"

fun fabs :: "npfloat \<Rightarrow> npfloat" where
  "fabs (Finite a) = Finite \<bar>a\<bar>"
| "fabs PInf = PInf"
| "fabs NInf = PInf"
| "fabs NaN = NaN"

text \<open>\<open>x ** 2\<close> and \<open>np.power(x, 2)\<close>: the product of \<open>x\<close> with itself.\<close>

definition fsquare :: "npfloat \<Rightarrow> npfloat" where
  "fsquare x = fmul x x"


text \<open>An integer count (a length) converted to \<open>float64\<close>.\<close>

definition of_count :: "nat \<Rightarrow> npfloat" where
  "of_count n = round64 (real n)"

section \<open>Errors and arrays\<close>

text \<open>
  The exceptions the modelled code can raise. \<open>NotFitted\<close> is the
  \<open>ValueError("Model is not yet fitted")\<close> of \<open>predict\<close>; \<open>ShapeMismatch\<close> is the
  \<open>ValueError\<close> numpy raises when operand shapes do not fit (broadcasting,
  concatenation, matrix product); \<open>LinAlgError\<close> is raised by \<open>np.linalg.inv\<close>;
  \<open>ZeroDivisionError\<close> by Python's own \<open>/\<close>; \<open>IndexError\<close> by indexing.
\<close>

datatype error = NotFitted | ShapeMismatch | LinAlgError | ZeroDivisionError | IndexError

text \<open>
  A two-dimensional array is its number of columns and its rows (a matrix with no
  rows still has a column count, as in numpy); every row of a well-formed matrix has
  that many entries.
\<close>

datatype matrix = Matrix (ncols: nat) (rows: "npfloat list list")

datatype ndarray = Arr1 "npfloat list" | Arr2 matrix

definition wf_matrix :: "matrix \<Rightarrow> bool" where
  "wf_matrix m = list_all (\<lambda>r. length r = ncols m) (rows m)"

fun np_ndim :: "ndarray \<Rightarrow> nat" where
  "np_ndim (Arr1 _) = 1"
| "np_ndim (Arr2 _) = 2"

fun ravel :: "ndarray \<Rightarrow> npfloat list" where
  "ravel (Arr1 xs) = xs"
| "ravel (Arr2 m) = concat (rows m)"

text \<open>
  \<open>np.sum\<close> of a one-dimensional \<open>float64\<close> array is numpy's pairwise summation: fewer
  than 8 elements are added one after the other, starting from zero; up to 128
  elements are added into 8 running sums, which are then combined as a balanced tree,
  the elements left over being added last; a longer array is split near its middle, at
  a multiple of 8, and the sums of the two parts are added.
\<close>

definition tree8 :: "npfloat list \<Rightarrow> npfloat" where
  "tree8 r = fadd (fadd (fadd (r ! 0) (r ! 1)) (fadd (r ! 2) (r ! 3)))
                  (fadd (fadd (r ! 4) (r ! 5)) (fadd (r ! 6) (r ! 7)))"

definition block_sum :: "npfloat list \<Rightarrow> npfloat" where
  "block_sum xs =
     (let n = length xs;
          m = n - n mod 8;
          r = foldl (\<lambda>r k. map2 fadd r (take 8 (drop (8 * k) xs))) (take 8 xs) [1..<m div 8]
      in foldl fadd (tree8 r) (drop m xs))"

function pairwise_sum :: "npfloat list \<Rightarrow> npfloat" where
  "pairwise_sum xs =
     (if length xs < 8 then foldl fadd (Finite 0) xs
      else if length xs \<le> 128 then block_sum xs
      else
        let n2 = length xs div 2;
            n2 = n2 - n2 mod 8
        in fadd (pairwise_sum (take n2 xs)) (pairwise_sum (drop n2 xs)))"
  by pat_completeness auto
termination
  by (relation "measure length") (auto simp: Let_def)

declare pairwise_sum.simps [simp del]

definition np_sum :: "npfloat list \<Rightarrow> npfloat" where
  "np_sum xs = pairwise_sum xs"

text \<open>\<open>np.mean\<close>: the sum divided by the number of elements (NaN on an empty array).\<close>

definition np_mean :: "npfloat list \<Rightarrow> npfloat" where
  "np_mean xs = fdiv (np_sum xs) (of_count (length xs))"

text \<open>
  Elementwise binary operation on one-dimensional arrays with numpy's broadcasting:
  equal lengths combine pointwise, a length-one operand is stretched, anything else
  raises.
\<close>

definition broadcast1 :: "('a \<Rightarrow> 'a \<Rightarrow> 'a) \<Rightarrow> 'a list \<Rightarrow> 'a list \<Rightarrow> error + 'a list" where
  "broadcast1 f xs ys =
     (if length xs = length ys then Inr (map2 f xs ys)
      else if length xs = 1 then Inr (map (f (hd xs)) ys)
      else if length ys = 1 then Inr (map (\<lambda>x. f x (hd ys)) xs)
      else Inl ShapeMismatch)"

section \<open>evaluate\_regression\<close>

text \<open>
  The arguments of \<open>evaluate_regression\<close> are one-dimensional arrays of numpy's two
  default element types: \<open>float64\<close>, and \<open>int64\<close> (what \<open>np.array\<close> makes of Python integers),
  a 64-bit two's complement integer whose arithmetic wraps around. A sum of an array
  is a scalar of the array's element type.
\<close>

datatype ndvec = F64 "npfloat list" | I64 "64 word list"

datatype npscalar = Float64 npfloat | Int64 "64 word"

text \<open>The conversion of an \<open>int64\<close> to \<open>float64\<close> rounds to the nearest value.\<close>

definition to_f64 :: "64 word \<Rightarrow> npfloat" where
  "to_f64 w = round64 (real_of_int (sint w))"

fun as_f64 :: "ndvec \<Rightarrow> npfloat list" where
  "as_f64 (F64 xs) = xs"
| "as_f64 (I64 ws) = map to_f64 ws"

fun as_float :: "npscalar \<Rightarrow> npfloat" where
  "as_float (Float64 x) = x"
| "as_float (Int64 w) = to_f64 w"

fun array_len :: "ndvec \<Rightarrow> nat" where
  "array_len (F64 xs) = length xs"
| "array_len (I64 ws) = length ws"

text \<open>
  \<open>a - b\<close>: two \<open>int64\<close> arrays are subtracted in \<open>int64\<close>; otherwise both operands are
  taken to \<open>float64\<close>.
\<close>

fun subtract :: "ndvec \<Rightarrow> ndvec \<Rightarrow> error + ndvec" where
  "subtract (I64 a) (I64 b) =
     (case broadcast1 (-) a b of Inl e \<Rightarrow> Inl e | Inr d \<Rightarrow> Inr (I64 d))"
| "subtract a b =
     (case broadcast1 fsub (as_f64 a) (as_f64 b) of Inl e \<Rightarrow> Inl e | Inr d \<Rightarrow> Inr (F64 d))"

text \<open>\<open>a ** 2\<close> and \<open>np.power(a, 2)\<close>, \<open>abs(a)\<close> and \<open>np.sum(a)\<close>, in the element type of \<open>a\<close>.\<close>

fun power2 :: "ndvec \<Rightarrow> ndvec" where
  "power2 (F64 xs) = F64 (map fsquare xs)"
| "power2 (I64 ws) = I64 (map (\<lambda>w. w * w) ws)"

fun absolute :: "ndvec \<Rightarrow> ndvec" where
  "absolute (F64 xs) = F64 (map fabs xs)"
| "absolute (I64 ws) = I64 (map (\<lambda>w. if sint w < 0 then - w else w) ws)"

fun np_sum_array :: "ndvec \<Rightarrow> npscalar" where
  "np_sum_array (F64 xs) = Float64 (np_sum xs)"
| "np_sum_array (I64 ws) = Int64 (sum_list ws)"

text \<open>
  The two sums of squares of lines 101 and 102. The residuals \<open>y_true - y_pred\<close> may
  raise on incompatible shapes. \<open>np.mean\<close> of an \<open>int64\<close> array adds the elements as
  \<open>float64\<close> values, and \<open>y_true - np.mean(y_true)\<close> subtracts a \<open>float64\<close> scalar: the
  total sum of squares is a \<open>float64\<close> whatever the element type.
\<close>

definition rss_of :: "ndvec \<Rightarrow> ndvec \<Rightarrow> error + npscalar" where
  "rss_of y_true y_pred =
     (case subtract y_true y_pred of
        Inl e \<Rightarrow> Inl e
      | Inr d \<Rightarrow> Inr (np_sum_array (power2 d)))"

definition tss_of :: "ndvec \<Rightarrow> npfloat" where
  "tss_of y_true =
     np_sum (map (\<lambda>v. fsquare (fsub v (np_mean (as_f64 y_true)))) (as_f64 y_true))"

text \<open>
  The function, statement by statement. \<open>rss / tss\<close> and the division under the root
  are numpy divisions in \<open>float64\<close> (no exception on a zero divisor); \<open>1 / len(y_true)\<close>
  is a Python division: it raises \<open>ZeroDivisionError\<close> on an empty \<open>y_true\<close> and otherwise
  gives the rounded quotient.
\<close>

definition evaluate_regression :: "ndvec \<Rightarrow> ndvec \<Rightarrow> error + (string \<rightharpoonup> npfloat)" where
  "evaluate_regression y_true y_pred =
     (case rss_of y_true y_pred of
        Inl e \<Rightarrow> Inl e
      | Inr rss \<Rightarrow>
          let tss = tss_of y_true;
              r_squared = fsub (Finite 1) (fdiv (as_float rss) tss)
          in (case subtract y_true y_pred of
                Inl e \<Rightarrow> Inl e
              | Inr d \<Rightarrow>
                  let rmse = fsqrt (fdiv (as_float (np_sum_array (power2 d)))
                                         (of_count (array_len y_true)))
                  in if array_len y_true = 0 then Inl ZeroDivisionError
                     else (case subtract y_true y_pred of
                             Inl e \<Rightarrow> Inl e
                           | Inr d' \<Rightarrow>
                               let mae = fmul (round64 (1 / real (array_len y_true)))
                                              (as_float (np_sum_array (absolute d')))
                               in Inr [''R2'' \<mapsto> r_squared, ''RMSE'' \<mapsto> rmse,
                                       ''MAE'' \<mapsto> mae])))"

section \<open>Library functions used by the regressor\<close>

text \<open>\<open>np.var(a, ddof)\<close>: over all elements of the array, whatever its shape.\<close>

definition np_var :: "ndarray \<Rightarrow> nat \<Rightarrow> npfloat" where
  "np_var a ddof =
     (let xs = ravel a;
          arrmean = fdiv (np_sum xs) (of_count (length xs));
          x = map (\<lambda>v. fsub v arrmean) xs;
          x = map (\<lambda>v. fmul v v) x;
          ret = np_sum x;
          rcount = max (int (length xs) - int ddof) 0
      in fdiv ret (round64 (real_of_int rcount)))"

fun atleast_2d :: "ndarray \<Rightarrow> matrix" where
  "atleast_2d (Arr1 xs) = Matrix (length xs) [xs]"
| "atleast_2d (Arr2 m) = m"

text \<open>
  The dot product of two rows, as the matrix products of numpy compute it through the
  BLAS library. The source does not determine the order in which that library adds
  the products; the model adds them from left to right, each product and each sum
  rounded.
\<close>

definition np_dot :: "npfloat list \<Rightarrow> npfloat list \<Rightarrow> npfloat" where
  "np_dot u v = foldl fadd (Finite 0) (map2 fmul u v)"

text \<open>
  \<open>np.cov(m, y, ddof)\<close> with the default \<open>rowvar=True\<close>: the rows of \<open>m\<close> and the row
  \<open>y\<close> are stacked (raising when the lengths differ), each row is centred on its mean,
  and the matrix of the rows' dot products is scaled by \<open>1 / fact\<close>, where \<open>fact\<close> is the
  number of columns minus \<open>ddof\<close>, replaced by zero when not positive.
\<close>

definition np_cov :: "ndarray \<Rightarrow> npfloat list \<Rightarrow> nat \<Rightarrow> error + matrix" where
  "np_cov m y ddof =
     (let X = atleast_2d m
      in if rows X = [] then Inr (Matrix 0 [])
         else if ncols X \<noteq> length y then Inl ShapeMismatch
         else
           let fact = int (ncols X) - int ddof;
               X = rows X @ [y];
               avg = map np_mean X;
               fact = (if fact \<le> 0 then 0 else fact);
               Xc = map2 (\<lambda>row a. map (\<lambda>v. fsub v a) row) X avg;
               c = map (\<lambda>ri. map (\<lambda>rj. np_dot ri rj) Xc) Xc;
               f = fdiv (Finite 1) (round64 (real_of_int fact))
           in Inr (Matrix (length Xc) (map (map (\<lambda>v. fmul v f)) c)))"

text \<open>Indexing \<open>c[i, j]\<close> of a two-dimensional array.\<close>

definition getitem2 :: "matrix \<Rightarrow> nat \<Rightarrow> nat \<Rightarrow> error + npfloat" where
  "getitem2 c i j =
     (if i < length (rows c) \<and> j < ncols c then Inr (rows c ! i ! j) else Inl IndexError)"

text \<open>\<open>X.reshape(1, -1)\<close>: all elements, in row-major order, as a single row.\<close>

definition reshape_1_row :: "ndarray \<Rightarrow> ndarray" where
  "reshape_1_row X = Arr2 (Matrix (length (ravel X)) [ravel X])"

text \<open>
  \<open>np.c_[np.ones(X.shape[0]), X]\<close>: a column of ones in front of the columns of \<open>X\<close>;
  a one-dimensional \<open>X\<close> counts as a single column.
\<close>

fun np_c_ones :: "ndarray \<Rightarrow> matrix" where
  "np_c_ones (Arr1 xs) = Matrix 2 (map (\<lambda>x. [Finite 1, x]) xs)"
| "np_c_ones (Arr2 m) = Matrix (Suc (ncols m)) (map (\<lambda>r. Finite 1 # r) (rows m))"

definition column :: "nat \<Rightarrow> npfloat list list \<Rightarrow> npfloat list" where
  "column j rs = map (\<lambda>r. r ! j) rs"

definition np_transpose :: "matrix \<Rightarrow> matrix" where
  "np_transpose m = Matrix (length (rows m)) (map (\<lambda>j. column j (rows m)) [0..<ncols m])"

text \<open>The operator \<open>@\<close> on two matrices, and on a matrix and a one-dimensional array.\<close>

definition np_matmul :: "matrix \<Rightarrow> matrix \<Rightarrow> error + matrix" where
  "np_matmul a b =
     (if ncols a = length (rows b)
      then Inr (Matrix (ncols b)
                 (map (\<lambda>r. map (\<lambda>j. np_dot r (column j (rows b))) [0..<ncols b]) (rows a)))
      else Inl ShapeMismatch)"

definition np_matvec :: "matrix \<Rightarrow> npfloat list \<Rightarrow> error + npfloat list" where
  "np_matvec a v =
     (if ncols a = length v then Inr (map (\<lambda>r. np_dot r v) (rows a))
      else Inl ShapeMismatch)"

section \<open>The regressor\<close>

text \<open>
  \<open>coefficients\<close> holds a numpy scalar after \<open>fit_simple\<close> and a one-dimensional array
  after \<open>fit_multiple\<close>; both fields are \<open>None\<close> after construction.
\<close>

datatype coef = Scalar npfloat | Vector "npfloat list"

record regressor =
  coefficients :: "coef option"
  intercept :: "npfloat option"

definition LinearRegressor_init :: regressor where
  "LinearRegressor_init = \<lparr>coefficients = None, intercept = None\<rparr>"

text \<open>
  The fit methods return nothing and mutate the object: the model returns the object
  after the call together with the exception that ended the call, if any. An
  exception raised while the right-hand side of an assignment is evaluated leaves the
  assigned field as it was.
\<close>

definition fit_simple :: "regressor \<Rightarrow> ndarray \<Rightarrow> npfloat list \<Rightarrow> regressor \<times> error option" where
  "fit_simple self X y =
     (let X = (if np_ndim X > 1 then reshape_1_row X else X)
      in case np_cov X y 0 of
           Inl e \<Rightarrow> (self, Some e)
         | Inr c \<Rightarrow>
             (case getitem2 c 1 0 of
                Inl e \<Rightarrow> (self, Some e)
              | Inr c10 \<Rightarrow>
                  let slope = fdiv c10 (np_var X 0);
                      self = self\<lparr>coefficients := Some (Scalar slope)\<rparr>;
                      self = self\<lparr>intercept :=
                               Some (fsub (np_mean y) (fmul slope (np_mean (ravel X))))\<rparr>
                  in (self, None)))"

text \<open>
  \<open>np.linalg.inv\<close> is a parameter of the model: a function from a matrix to its
  inverse, or to the \<open>LinAlgError\<close> it raises.
\<close>

definition fit_multiple ::
  "(matrix \<Rightarrow> error + matrix) \<Rightarrow> regressor \<Rightarrow> ndarray \<Rightarrow> npfloat list \<Rightarrow> regressor \<times> error option" where
  "fit_multiple linalg_inv self X y =
     (let X = np_c_ones X;
          Xt = np_transpose X
      in case np_matmul Xt X of
           Inl e \<Rightarrow> (self, Some e)
         | Inr G \<Rightarrow>
             (case linalg_inv G of
                Inl e \<Rightarrow> (self, Some e)
              | Inr Gi \<Rightarrow>
                  (case np_matmul Gi Xt of
                     Inl e \<Rightarrow> (self, Some e)
                   | Inr P \<Rightarrow>
                       (case np_matvec P y of
                          Inl e \<Rightarrow> (self, Some e)
                        | Inr w \<Rightarrow>
                            (case w of
                               [] \<Rightarrow> (self, Some IndexError)
                             | w0 # ws \<Rightarrow>
                                 let self = self\<lparr>intercept := Some w0\<rparr>;
                                     self = self\<lparr>coefficients := Some (Vector ws)\<rparr>
                                 in (self, None))))))"

text \<open>\<open>coefficients * X\<close> for a one-dimensional \<open>X\<close>.\<close>

fun coef_times :: "coef \<Rightarrow> npfloat list \<Rightarrow> error + npfloat list" where
  "coef_times (Scalar s) xs = Inr (map (fmul s) xs)"
| "coef_times (Vector cs) xs = broadcast1 fmul cs xs"

text \<open>
  \<open>X.dot(coefficients)\<close> for a two-dimensional \<open>X\<close>: the matrix-vector product, or
  the elementwise multiple when the coefficient is a scalar.
\<close>

fun matrix_dot :: "matrix \<Rightarrow> coef \<Rightarrow> error + ndarray" where
  "matrix_dot m (Scalar s) =
     Inr (Arr2 (Matrix (ncols m) (map (map (\<lambda>x. fmul x s)) (rows m))))"
| "matrix_dot m (Vector cs) =
     (case np_matvec m cs of Inl e \<Rightarrow> Inl e | Inr v \<Rightarrow> Inr (Arr1 v))"

text \<open>\<open>intercept + a\<close>: the scalar is added to every element.\<close>

fun scalar_plus :: "npfloat \<Rightarrow> ndarray \<Rightarrow> ndarray" where
  "scalar_plus b (Arr1 v) = Arr1 (map (fadd b) v)"
| "scalar_plus b (Arr2 m) = Arr2 (Matrix (ncols m) (map (map (fadd b)) (rows m)))"

definition predict :: "regressor \<Rightarrow> ndarray \<Rightarrow> error + ndarray" where
  "predict self X =
     (if coefficients self = None \<or> intercept self = None then Inl NotFitted
      else
        let c = the (coefficients self); b = the (intercept self)
        in (case X of
              Arr1 xs \<Rightarrow>
                (case coef_times c xs of
                   Inl e \<Rightarrow> Inl e
                 | Inr p \<Rightarrow> Inr (scalar_plus b (Arr1 p)))
            | Arr2 m \<Rightarrow>
                (case matrix_dot m c of
                   Inl e \<Rightarrow> Inl e
                 | Inr d \<Rightarrow> Inr (scalar_plus b d))))"

section \<open>The quantities of the specification\<close>









text \<open>
  The sums of the specification evaluated in \<open>float64\<close> arithmetic, every difference,
  square and sum rounded, and the sums of squared and of absolute residuals
  evaluated in wrapping \<open>int64\<close> arithmetic.
\<close>

definition rss64 :: "npfloat list \<Rightarrow> npfloat list \<Rightarrow> npfloat" where
  "rss64 a b = np_sum (map2 (\<lambda>t p. fsquare (fsub t p)) a b)"

definition tss64 :: "npfloat list \<Rightarrow> npfloat" where
  "tss64 a = np_sum (map (\<lambda>t. fsquare (fsub t (np_mean a))) a)"

definition sae64 :: "npfloat list \<Rightarrow> npfloat list \<Rightarrow> npfloat" where
  "sae64 a b = np_sum (map2 (\<lambda>t p. fabs (fsub t p)) a b)"








text \<open>
  \<open>y + c\<close> for a \<open>float64\<close> array and a constant, as a caller computes it, and the
  condition that the sum of a value and the constant is computed without rounding.
\<close>

definition shift :: "real \<Rightarrow> npfloat list \<Rightarrow> npfloat list" where
  "shift c ys = map (\<lambda>v. fadd v (Finite c)) ys"

fun exact_sum :: "real \<Rightarrow> npfloat \<Rightarrow> bool" where
  "exact_sum c (Finite x) = (round64 (x + c) = Finite (x + c))"
| "exact_sum c _ = True"












section \<open>An inversion routine for two-by-two matrices\<close>

text \<open>
  \<open>np.linalg.inv\<close> itself is a LAPACK routine outside the source. To run \<open>fit_multiple\<close>
  on concrete single-feature inputs, this is one routine that can take its place: the
  adjugate formula in \<open>float64\<close> arithmetic for a matrix of two rows and two columns,
  raising when the computed determinant is zero.
\<close>

definition inv_2x2 :: "matrix \<Rightarrow> error + matrix" where
  "inv_2x2 m =
     (case rows m of
        [[a, b], [c, d]] \<Rightarrow>
          (let det = fsub (fmul a d) (fmul b c)
           in if det = Finite 0 then Inl LinAlgError
              else Inr (Matrix 2 [[fdiv d det, fdiv (fneg b) det],
                                  [fdiv (fneg c) det, fdiv a det]]))
      | _ \<Rightarrow> Inl LinAlgError)"

text \<open>The value a returned mapping holds under a key, if the call returned one.\<close>

definition metric :: "string \<Rightarrow> error + (string \<rightharpoonup> npfloat) \<Rightarrow> npfloat option" where
  "metric k r = (case r of Inl _ \<Rightarrow> None | Inr m \<Rightarrow> m k)"

section \<open>Rounding\<close>

lemma round_half_even_of_int [simp]: "round_half_even (of_int n) = n"
  by (simp add: round_half_even_def)

lemma pow2_pos: "(0::real) < 2 powi e"
  by simp

lemma powr_powi: "(2::real) powr real_of_int e = 2 powi e"
  by (rule powr_real_of_int') simp_all

lemma powr_powi_Suc: "(2::real) powr (real_of_int e + 1) = 2 powi (e + 1)"
  using powr_powi [of "e + 1"] by simp

lemma binade_eqI:
  assumes "2 powi e \<le> \<bar>x\<bar>" and "\<bar>x\<bar> < 2 powi (e + 1)"
  shows "binade x = e"
proof -
  have "(0::real) < 2 powi e" by simp
  with assms(1) have pos: "0 < \<bar>x\<bar>" by linarith
  have "2 powr real_of_int e \<le> \<bar>x\<bar> \<and> \<bar>x\<bar> < 2 powr (real_of_int e + 1)"
    using assms unfolding powr_powi powr_powi_Suc by simp
  then show ?thesis
    unfolding binade_def using floor_log_eq_powr_iff [of "\<bar>x\<bar>" 2 e] pos by simp
qed

lemma binade_bounds:
  assumes "x \<noteq> 0"
  shows "2 powi binade x \<le> \<bar>x\<bar>" and "\<bar>x\<bar> < 2 powi (binade x + 1)"
proof -
  have pos: "0 < \<bar>x\<bar>" using assms by simp
  have "2 powr real_of_int (binade x) \<le> \<bar>x\<bar> \<and> \<bar>x\<bar> < 2 powr (real_of_int (binade x) + 1)"
    using floor_log_eq_powr_iff [of "\<bar>x\<bar>" 2 "binade x"] pos by (simp add: binade_def)
  then show "2 powi binade x \<le> \<bar>x\<bar>" and "\<bar>x\<bar> < 2 powi (binade x + 1)"
    unfolding powr_powi powr_powi_Suc by simp_all
qed

lemma round64_eval:
  assumes "2 powi e \<le> \<bar>x\<bar>" and "\<bar>x\<bar> < 2 powi (e + 1)"
  shows "round64 x =
           (let q = max e (- 1022) - 52;
                r = of_int (round_half_even (x / 2 powi q)) * 2 powi q
            in if 2 ^ 1024 \<le> \<bar>r\<bar> then (if 0 < x then PInf else NInf) else Finite r)"
proof -
  have "0 < \<bar>x\<bar>" using assms(1) pow2_pos [of e] by linarith
  then have "x \<noteq> 0" by simp
  then show ?thesis
    by (simp add: round64_def binade_eqI [OF assms])
qed

lemma powi_less_iff: "(2::real) powi a < 2 powi b \<longleftrightarrow> a < b"
  by (smt (verit) power_int_strict_increasing power_int_increasing)

lemma round64_exact:
  assumes x: "x = of_int m * 2 powi p" and m: "\<bar>m\<bar> < 2 ^ 53"
    and lo: "- 1074 \<le> p" and hi: "p \<le> 971"
  shows "round64 x = Finite x"
proof (cases "m = 0")
  case True
  then show ?thesis by (simp add: x round64_def)
next
  case False
  then have x0: "x \<noteq> 0" by (simp add: x)
  have "1 \<le> \<bar>m\<bar>" using False by simp
  then have m1: "1 \<le> \<bar>real_of_int m\<bar>" by (metis of_int_1_le_iff of_int_abs)
  have m2: "\<bar>real_of_int m\<bar> < 2 powi 53"
    using m by (metis of_int_abs of_int_less_numeral_power_cancel_iff power_int_numeral)
  have ax: "\<bar>x\<bar> = \<bar>real_of_int m\<bar> * 2 powi p" by (simp add: x abs_mult power_int_abs)
  have "1 * 2 powi p \<le> \<bar>real_of_int m\<bar> * 2 powi p"
    using m1 by (intro mult_right_mono) simp_all
  then have lower: "2 powi p \<le> \<bar>x\<bar>"
    unfolding ax by simp
  have "\<bar>real_of_int m\<bar> * 2 powi p < 2 powi 53 * 2 powi p"
    using m2 by (intro mult_strict_right_mono) simp_all
  then have "\<bar>x\<bar> < 2 powi 53 * 2 powi p"
    unfolding ax .
  then have upper: "\<bar>x\<bar> < 2 powi (53 + p)" by (simp add: power_int_add)
  define e where "e = binade x"
  have b1: "2 powi e \<le> \<bar>x\<bar>" and b2: "\<bar>x\<bar> < 2 powi (e + 1)"
    unfolding e_def using binade_bounds [OF x0] by auto
  have "(2::real) powi e < 2 powi (53 + p)" using b1 upper by linarith
  then have e_hi: "e < 53 + p" by (simp add: powi_less_iff)
  have "(2::real) powi p < 2 powi (e + 1)" using lower b2 by linarith
  then have e_lo: "p \<le> e" by (simp add: powi_less_iff)
  define q where "q = max e (- 1022) - 52"
  have qp: "q \<le> p" using e_hi lo by (simp add: q_def)
  have "x / 2 powi q = of_int m * 2 powi (p - q)"
    by (simp add: x power_int_diff)
  also have "\<dots> = of_int (m * 2 ^ nat (p - q))"
    using qp by (simp add: power_int_nonneg_exp)
  finally have quot: "x / 2 powi q = of_int (m * 2 ^ nat (p - q))" .
  have r: "of_int (round_half_even (x / 2 powi q)) * 2 powi q = x"
    unfolding quot round_half_even_of_int using quot by (simp add: field_simps)
  have "\<bar>x\<bar> < 2 powi (53 + p)" by (rule upper)
  also have "\<dots> \<le> 2 powi 1024" using hi by (intro power_int_increasing) auto
  finally have fin: "\<not> 2 ^ 1024 \<le> \<bar>x\<bar>" by simp
  show ?thesis
    using x0 fin r by (simp add: round64_def e_def [symmetric] q_def [symmetric] Let_def)
qed




lemma round64_range: "round64 x = Finite r \<Longrightarrow> \<bar>r\<bar> < 2 ^ 1024"
  by (auto simp: round64_def Let_def split: if_splits)

lemma round64_not_NaN: "round64 x \<noteq> NaN"
  by (simp add: round64_def Let_def)

lemma round64_0 [simp]: "round64 0 = Finite 0"
  by (simp add: round64_def)

lemma round64_int:
  assumes "\<bar>k\<bar> < 2 ^ 53"
  shows "round64 (real_of_int k) = Finite (real_of_int k)"
  using assms by (intro round64_exact [where m = k and p = 0]) simp_all

lemma round64_numeral [simp]:
  "numeral n < (9007199254740992 :: int) \<Longrightarrow> round64 (numeral n) = Finite (numeral n)"
  using round64_int [of "numeral n"] by simp

lemma round64_neg_numeral [simp]:
  "numeral n < (9007199254740992 :: int) \<Longrightarrow> round64 (- numeral n) = Finite (- numeral n)"
  using round64_int [of "- numeral n"] by simp

lemma round64_1 [simp]: "round64 1 = Finite 1"
  using round64_int [of 1] by simp

lemma round64_neg_1 [simp]: "round64 (- 1) = Finite (- 1)"
  using round64_int [of "- 1"] by simp

lemma np_sum_short: "length xs < 8 \<Longrightarrow> np_sum xs = foldl fadd (Finite 0) xs"
  by (simp add: np_sum_def pairwise_sum.simps)

lemma round64_dyadic:
  assumes "\<bar>m\<bar> < 2 ^ 53" and "k \<le> 1074"
  shows "round64 (real_of_int m / 2 ^ k) = Finite (real_of_int m / 2 ^ k)"
proof (rule round64_exact [where m = m and p = "- int k"])
  show "real_of_int m / 2 ^ k = real_of_int m * 2 powi (- int k)"
    by (simp add: power_int_minus field_simps)
qed (use assms in simp_all)

section \<open>Errors of predict\<close>

lemma broadcast1_error: "broadcast1 f xs ys = Inl e \<Longrightarrow> e = ShapeMismatch"
  by (auto simp: broadcast1_def split: if_splits)

lemma np_matvec_error: "np_matvec a v = Inl e \<Longrightarrow> e = ShapeMismatch"
  by (auto simp: np_matvec_def split: if_splits)

lemma coef_times_error: "coef_times c xs = Inl e \<Longrightarrow> e = ShapeMismatch"
  by (cases c) (auto dest: broadcast1_error)

lemma matrix_dot_error: "matrix_dot m c = Inl e \<Longrightarrow> e = ShapeMismatch"
  by (cases c) (auto dest: np_matvec_error split: sum.splits)

text \<open>
  C4: \<open>predict\<close> raises the unfitted-model error on a freshly constructed regressor,
  whatever the input, and on any regressor it raises that error exactly when
  \<open>coefficients\<close> or \<open>intercept\<close> is unset.
\<close>

theorem predict_unfitted_iff:
  "predict LinearRegressor_init X = Inl NotFitted \<and>
   (predict self X = Inl NotFitted \<longleftrightarrow> (coefficients self = None \<or> intercept self = None))"
proof -
  have "predict LinearRegressor_init X = Inl NotFitted"
    by (simp add: predict_def LinearRegressor_init_def)
  moreover have "predict self X = Inl NotFitted" if "coefficients self = None \<or> intercept self = None"
    using that by (simp add: predict_def)
  moreover have "predict self X \<noteq> Inl NotFitted"
    if "\<not> (coefficients self = None \<or> intercept self = None)"
    using that
    by (auto simp: predict_def Let_def split: ndarray.splits sum.splits
             dest: coef_times_error matrix_dot_error)
  ultimately show ?thesis by (cases "coefficients self = None \<or> intercept self = None") simp_all
qed

theorem predict_unfitted_iff_witness:
  "predict LinearRegressor_init (Arr1 [Finite 1]) = Inl NotFitted \<and>
   predict \<lparr>coefficients = Some (Scalar (Finite 2)), intercept = None\<rparr> (Arr1 [Finite 1])
     = Inl NotFitted \<and>
   predict \<lparr>coefficients = Some (Scalar (Finite 2)), intercept = Some (Finite 1)\<rparr>
     (Arr1 [Finite 1]) \<noteq> Inl NotFitted"
  using predict_unfitted_iff [of "Arr1 [Finite 1]"
          "\<lparr>coefficients = Some (Scalar (Finite 2)), intercept = None\<rparr>"]
        predict_unfitted_iff [of "Arr1 [Finite 1]"
          "\<lparr>coefficients = Some (Scalar (Finite 2)), intercept = Some (Finite 1)\<rparr>"]
  by simp

section \<open>Failed fits\<close>

lemma fit_simple_outcome:
  "(\<exists>e. fit_simple self X y = (self, Some e)) \<or>
   (\<exists>s b. fit_simple self X y = (self\<lparr>coefficients := Some s, intercept := Some b\<rparr>, None))"
  by (auto simp: fit_simple_def Let_def split: sum.splits)

lemma fit_multiple_outcome:
  "(\<exists>e. fit_multiple linalg_inv self X y = (self, Some e)) \<or>
   (\<exists>s b. fit_multiple linalg_inv self X y =
            (self\<lparr>intercept := Some b, coefficients := Some s\<rparr>, None))"
  by (auto simp: fit_multiple_def Let_def split: sum.splits list.splits)

text \<open>
  C7: a fit call that raises leaves the regressor as it was, in particular when
  \<open>fit_multiple\<close> gets a \<open>LinAlgError\<close> from the inversion; and every fit call
  either raises and changes nothing or assigns both fields.
\<close>

theorem failed_fit_keeps_state:
  "(snd (fit_simple self X y) \<noteq> None \<longrightarrow> fst (fit_simple self X y) = self) \<and>
   (snd (fit_multiple linalg_inv self X y) \<noteq> None \<longrightarrow>
      fst (fit_multiple linalg_inv self X y) = self) \<and>
   (np_matmul (np_transpose (np_c_ones X)) (np_c_ones X) = Inr G \<and> linalg_inv G = Inl LinAlgError \<longrightarrow>
      fit_multiple linalg_inv self X y = (self, Some LinAlgError)) \<and>
   ((\<exists>e. fit_simple self X y = (self, Some e)) \<or>
    (\<exists>s b. fit_simple self X y = (self\<lparr>coefficients := Some s, intercept := Some b\<rparr>, None))) \<and>
   ((\<exists>e. fit_multiple linalg_inv self X y = (self, Some e)) \<or>
    (\<exists>s b. fit_multiple linalg_inv self X y =
             (self\<lparr>intercept := Some b, coefficients := Some s\<rparr>, None)))"
proof -
  have a: "snd (fit_simple self X y) \<noteq> None \<longrightarrow> fst (fit_simple self X y) = self"
    using fit_simple_outcome [of self X y] by auto
  have b: "snd (fit_multiple linalg_inv self X y) \<noteq> None \<longrightarrow>
      fst (fit_multiple linalg_inv self X y) = self"
    using fit_multiple_outcome [of linalg_inv self X y] by auto
  have c: "np_matmul (np_transpose (np_c_ones X)) (np_c_ones X) = Inr G \<and> linalg_inv G = Inl LinAlgError \<longrightarrow>
      fit_multiple linalg_inv self X y = (self, Some LinAlgError)"
    by (simp add: fit_multiple_def Let_def)
  show ?thesis
    using a b c fit_simple_outcome [of self X y] fit_multiple_outcome [of linalg_inv self X y]
    by blast
qed

theorem failed_fit_keeps_state_witness:
  "snd (fit_simple LinearRegressor_init (Arr1 [Finite 1, Finite 2]) [Finite 1]) = Some ShapeMismatch \<and>
   fst (fit_simple LinearRegressor_init (Arr1 [Finite 1, Finite 2]) [Finite 1]) = LinearRegressor_init \<and>
   np_matmul (np_transpose (np_c_ones (Arr1 [Finite 1, Finite 1]))) (np_c_ones (Arr1 [Finite 1, Finite 1]))
     = Inr (Matrix 2 [[Finite 2, Finite 2], [Finite 2, Finite 2]]) \<and>
   inv_2x2 (Matrix 2 [[Finite 2, Finite 2], [Finite 2, Finite 2]]) = Inl LinAlgError \<and>
   fit_multiple inv_2x2 LinearRegressor_init (Arr1 [Finite 1, Finite 1]) [Finite 1, Finite 2]
     = (LinearRegressor_init, Some LinAlgError)"
proof -
  have s: "snd (fit_simple LinearRegressor_init (Arr1 [Finite 1, Finite 2]) [Finite 1]) = Some ShapeMismatch"
    by (simp add: fit_simple_def np_cov_def)
  have g: "np_matmul (np_transpose (np_c_ones (Arr1 [Finite 1, Finite 1]))) (np_c_ones (Arr1 [Finite 1, Finite 1]))
     = Inr (Matrix 2 [[Finite 2, Finite 2], [Finite 2, Finite 2]])"
    by (simp add: np_matmul_def np_transpose_def column_def np_dot_def upt_rec)
  have i: "inv_2x2 (Matrix 2 [[Finite 2, Finite 2], [Finite 2, Finite 2]]) = Inl LinAlgError"
    by (simp add: inv_2x2_def fsub_def)
  show ?thesis
    using s g i
      failed_fit_keeps_state [of LinearRegressor_init "Arr1 [Finite 1, Finite 2]" "[Finite 1]" inv_2x2]
      failed_fit_keeps_state [of LinearRegressor_init "Arr1 [Finite 1, Finite 1]" "[Finite 1, Finite 2]"
         inv_2x2 "Matrix 2 [[Finite 2, Finite 2], [Finite 2, Finite 2]]"]
    by simp
qed

section \<open>fit\_simple on a two-dimensional single-feature input\<close>

lemma length_concat_wf:
  "list_all (\<lambda>r. length r = c) rs \<Longrightarrow> length (concat rs) = length rs * c"
  by (induction rs) simp_all

lemma ravel_reshape: "ravel (reshape_1_row X) = ravel X"
  by (simp add: reshape_1_row_def)

lemma np_cov_reshape: "np_cov (reshape_1_row X) y d = np_cov (Arr1 (ravel X)) y d"
  by (simp add: np_cov_def reshape_1_row_def)

lemma np_var_reshape: "np_var (reshape_1_row X) d = np_var (Arr1 (ravel X)) d"
  by (simp add: np_var_def ravel_reshape)

lemma fit_simple_reshape:
  "fit_simple self (Arr2 m) y = fit_simple self (Arr1 (concat (rows m))) y"
  by (simp add: fit_simple_def Let_def np_cov_reshape np_var_reshape ravel_reshape cong: sum.case_cong)

lemma fit_simple_no_error:
  "length xs = length y \<Longrightarrow> snd (fit_simple self (Arr1 xs) y) = None"
  by (simp add: fit_simple_def np_cov_def getitem2_def Let_def)

text \<open>
  C10: for a well-formed two-dimensional \<open>X\<close> of shape n-by-1 or 1-by-n and a response of
  length n, \<open>fit_simple\<close> does not raise and leaves the regressor exactly as
  \<open>fit_simple\<close> on the flattened one-dimensional \<open>X\<close> does.
\<close>

theorem fit_simple_2d_single_feature:
  assumes "wf_matrix m"
    and "(ncols m = 1 \<and> length (rows m) = length y) \<or> (length (rows m) = 1 \<and> ncols m = length y)"
  shows "fit_simple self (Arr2 m) y = fit_simple self (Arr1 (concat (rows m))) y \<and>
         snd (fit_simple self (Arr2 m) y) = None"
proof -
  have "length (concat (rows m)) = length (rows m) * ncols m"
    using assms(1) by (simp add: wf_matrix_def length_concat_wf)
  with assms(2) have "length (concat (rows m)) = length y" by auto
  then show ?thesis
    by (simp add: fit_simple_reshape fit_simple_no_error)
qed

theorem fit_simple_2d_single_feature_witness:
  "wf_matrix (Matrix 1 [[Finite 1], [Finite 2], [Finite 3], [Finite 4]]) \<and>
   fit_simple LinearRegressor_init (Arr2 (Matrix 1 [[Finite 1], [Finite 2], [Finite 3], [Finite 4]]))
     [Finite 2, Finite 4, Finite 6, Finite 8]
   = fit_simple LinearRegressor_init (Arr1 [Finite 1, Finite 2, Finite 3, Finite 4])
     [Finite 2, Finite 4, Finite 6, Finite 8] \<and>
   fit_simple LinearRegressor_init (Arr2 (Matrix 1 [[Finite 1], [Finite 2], [Finite 3], [Finite 4]]))
     [Finite 2, Finite 4, Finite 6, Finite 8]
   = (\<lparr>coefficients = Some (Scalar (Finite 2)), intercept = Some (Finite 0)\<rparr>, None)"
proof -
  have w: "wf_matrix (Matrix 1 [[Finite 1], [Finite 2], [Finite 3], [Finite 4]])"
    by (simp add: wf_matrix_def)
  have v: "fit_simple LinearRegressor_init (Arr1 [Finite 1, Finite 2, Finite 3, Finite 4])
     [Finite 2, Finite 4, Finite 6, Finite 8]
     = (\<lparr>coefficients = Some (Scalar (Finite 2)), intercept = Some (Finite 0)\<rparr>, None)"
    using round64_dyadic [of 1 1] round64_dyadic [of 3 1] round64_dyadic [of 5 1]
      round64_dyadic [of 9 1] round64_dyadic [of 11 1]
      round64_dyadic [of "- 1" 1] round64_dyadic [of "- 3" 1]
      round64_dyadic [of 1 2] round64_dyadic [of 5 2] round64_dyadic [of 9 2]
      round64_dyadic [of 11 2]
    by (simp add: fit_simple_def np_cov_def getitem2_def np_var_def np_mean_def np_dot_def
          np_sum_short of_count_def fsub_def LinearRegressor_init_def Let_def)
  show ?thesis
    using w v fit_simple_2d_single_feature [OF w, of "[Finite 2, Finite 4, Finite 6, Finite 8]"
                 LinearRegressor_init]
    by simp
qed

section \<open>Values of predict\<close>

lemma broadcast1_singleton: "broadcast1 f [s] xs = Inr (map (f s) xs)"
  by (cases xs) (auto simp: broadcast1_def)

lemma predict_vector:
  "coefficients self = Some c \<Longrightarrow> intercept self = Some b \<Longrightarrow> c = Scalar s \<or> c = Vector [s] \<Longrightarrow>
   predict self (Arr1 xs) = Inr (Arr1 (map (\<lambda>x. fadd b (fmul s x)) xs))"
  by (auto simp: predict_def broadcast1_singleton comp_def)

lemma predict_matrix:
  "coefficients self = Some (Vector cs) \<Longrightarrow> intercept self = Some b \<Longrightarrow> ncols m = length cs \<Longrightarrow>
   predict self (Arr2 m) = Inr (Arr1 (map (\<lambda>r. fadd b (np_dot r cs)) (rows m)))"
  by (simp add: predict_def np_matvec_def comp_def)

lemma predict_matrix_scalar_coefficient:
  "coefficients self = Some (Scalar s) \<Longrightarrow> intercept self = Some b \<Longrightarrow>
   predict self (Arr2 m) =
     Inr (Arr2 (Matrix (ncols m) (map (map (\<lambda>x. fadd b (fmul x s))) (rows m))))"
  by (simp add: predict_def comp_def)

text \<open>
  \<open>fit_simple\<close> on \<open>X = [0, 2]\<close>, \<open>y = [1, 5]\<close> stores the scalar coefficient 2 and the
  intercept 1. On that regressor \<open>predict\<close> with the two-by-one array \<open>[[0], [2]]\<close>, a
  two-dimensional \<open>X\<close> with the fitted number of features, returns the two-by-one array
  \<open>[[1], [5]]\<close>: \<open>X.dot\<close> of a scalar multiplies elementwise and keeps the shape. The
  result is not the array \<open>[1, 5]\<close> of length 2.
\<close>

theorem predict_after_fit_simple_is_2d:
  "fit_simple LinearRegressor_init (Arr1 [Finite 0, Finite 2]) [Finite 1, Finite 5]
     = (\<lparr>coefficients = Some (Scalar (Finite 2)), intercept = Some (Finite 1)\<rparr>, None) \<and>
   predict \<lparr>coefficients = Some (Scalar (Finite 2)), intercept = Some (Finite 1)\<rparr>
     (Arr2 (Matrix 1 [[Finite 0], [Finite 2]]))
     = Inr (Arr2 (Matrix 1 [[Finite 1], [Finite 5]])) \<and>
   predict \<lparr>coefficients = Some (Scalar (Finite 2)), intercept = Some (Finite 1)\<rparr>
     (Arr2 (Matrix 1 [[Finite 0], [Finite 2]]))
     \<noteq> Inr (Arr1 [Finite 1, Finite 5])"
proof -
  have "fit_simple LinearRegressor_init (Arr1 [Finite 0, Finite 2]) [Finite 1, Finite 5]
     = (\<lparr>coefficients = Some (Scalar (Finite 2)), intercept = Some (Finite 1)\<rparr>, None)"
    using round64_dyadic [of 1 1]
    by (simp add: fit_simple_def np_cov_def getitem2_def np_var_def np_mean_def np_dot_def
          np_sum_short of_count_def fsub_def LinearRegressor_init_def Let_def)
  moreover have "predict \<lparr>coefficients = Some (Scalar (Finite 2)), intercept = Some (Finite 1)\<rparr>
     (Arr2 (Matrix 1 [[Finite 0], [Finite 2]]))
     = Inr (Arr2 (Matrix 1 [[Finite 1], [Finite 5]]))"
    by (simp add: predict_def)
  ultimately show ?thesis by simp
qed

text \<open>
  C5, amended: on a fitted regressor with intercept \<open>b\<close>, all arithmetic being that of
  \<open>float64\<close>: a one-dimensional input and a coefficient that is a scalar or an array of
  length one give the array of \<open>b + s * x\<close>, of the input's length; a two-dimensional
  input whose column count is the length of the coefficient array gives the
  one-dimensional array, one entry per row, of \<open>b\<close> plus the dot product of the row with
  the coefficients; a two-dimensional input and a scalar coefficient, as \<open>fit_simple\<close>
  leaves it, give a two-dimensional array of the shape of the input, each entry
  \<open>b + x * s\<close>.
\<close>

theorem predict_values:
  "coefficients self = Some c \<and> intercept self = Some b \<longrightarrow>
     ((c = Scalar s \<or> c = Vector [s]) \<longrightarrow>
        predict self (Arr1 xs) = Inr (Arr1 (map (\<lambda>x. fadd b (fmul s x)) xs)) \<and>
        length (map (\<lambda>x. fadd b (fmul s x)) xs) = length xs) \<and>
     (c = Vector cs \<and> ncols m = length cs \<longrightarrow>
        predict self (Arr2 m) = Inr (Arr1 (map (\<lambda>r. fadd b (np_dot r cs)) (rows m))) \<and>
        length (map (\<lambda>r. fadd b (np_dot r cs)) (rows m)) = length (rows m)) \<and>
     (c = Scalar s \<longrightarrow>
        predict self (Arr2 m) =
          Inr (Arr2 (Matrix (ncols m) (map (map (\<lambda>x. fadd b (fmul x s))) (rows m)))))"
proof (intro impI conjI; (elim conjE)?)
  assume cb: "coefficients self = Some c" "intercept self = Some b"
  {
    assume "c = Scalar s \<or> c = Vector [s]"
    with cb show "predict self (Arr1 xs) = Inr (Arr1 (map (\<lambda>x. fadd b (fmul s x)) xs))"
      by (rule predict_vector)
  }
  {
    assume "c = Vector cs" "ncols m = length cs"
    with cb show "predict self (Arr2 m) = Inr (Arr1 (map (\<lambda>r. fadd b (np_dot r cs)) (rows m)))"
      by (simp add: predict_matrix)
  }
  {
    assume "c = Scalar s"
    with cb show "predict self (Arr2 m) =
          Inr (Arr2 (Matrix (ncols m) (map (map (\<lambda>x. fadd b (fmul x s))) (rows m))))"
      by (simp add: predict_matrix_scalar_coefficient)
  }
qed simp_all

theorem predict_values_witness:
  "predict \<lparr>coefficients = Some (Scalar (Finite 2)), intercept = Some (Finite 1)\<rparr>
     (Arr1 [Finite 1, Finite 2]) = Inr (Arr1 [Finite 3, Finite 5]) \<and>
   predict \<lparr>coefficients = Some (Vector [Finite 2, Finite (- 3)]), intercept = Some (Finite 1)\<rparr>
     (Arr2 (Matrix 2 [[Finite 1, Finite 1], [Finite 2, Finite 0]]))
     = Inr (Arr1 [Finite 0, Finite 5]) \<and>
   predict \<lparr>coefficients = Some (Scalar (Finite 2)), intercept = Some (Finite 1)\<rparr>
     (Arr2 (Matrix 1 [[Finite 1], [Finite 2]])) = Inr (Arr2 (Matrix 1 [[Finite 3], [Finite 5]]))"
  using predict_values [of "\<lparr>coefficients = Some (Scalar (Finite 2)), intercept = Some (Finite 1)\<rparr>"
          "Scalar (Finite 2)" "Finite 1" "Finite 2" "[Finite 1, Finite 2]" "[]"
          "Matrix 1 [[Finite 1], [Finite 2]]"]
        predict_values [of "\<lparr>coefficients = Some (Vector [Finite 2, Finite (- 3)]), intercept = Some (Finite 1)\<rparr>"
          "Vector [Finite 2, Finite (- 3)]" "Finite 1" "Finite 0" "[]" "[Finite 2, Finite (- 3)]"
          "Matrix 2 [[Finite 1, Finite 1], [Finite 2, Finite 0]]"]
  by (simp add: np_dot_def)

section \<open>fit\_simple in float64 arithmetic\<close>












section \<open>Division by zero in fit\_simple and evaluate\_regression\<close>




lemma broadcast1_equal_lengths:
  "length xs = length ys \<Longrightarrow> broadcast1 f xs ys = Inr (map2 f xs ys)"
  by (simp add: broadcast1_def)






section \<open>The metrics of evaluate\_regression\<close>

lemma evaluate_regression_F64:
  assumes "length a = length b" and "a \<noteq> []"
  shows "evaluate_regression (F64 a) (F64 b) =
           Inr [''R2'' \<mapsto> fsub (Finite 1) (fdiv (rss64 a b) (tss64 a)),
                ''RMSE'' \<mapsto> fsqrt (fdiv (rss64 a b) (of_count (length a))),
                ''MAE'' \<mapsto> fmul (round64 (1 / real (length a))) (sae64 a b)]"
  using assms
  by (auto simp: evaluate_regression_def rss_of_def tss_of_def broadcast1_equal_lengths
        rss64_def tss64_def sae64_def comp_def split_def Let_def)






section \<open>Adding a constant to both arguments of evaluate\_regression\<close>

lemma rss_of_F64:
  "length a = length b \<Longrightarrow> rss_of (F64 a) (F64 b) = Inr (Float64 (rss64 a b))"
  by (simp add: rss_of_def broadcast1_equal_lengths rss64_def comp_def split_def)

lemma residual_shift:
  "exact_sum c v \<Longrightarrow> exact_sum c u \<Longrightarrow> fsub (fadd v (Finite c)) (fadd u (Finite c)) = fsub v u"
  by (cases v; cases u) (simp_all add: fsub_def)

lemma residuals_shift:
  assumes "length a = length b" and "list_all (exact_sum c) (a @ b)"
  shows "map2 (\<lambda>t p. f (fsub t p)) (shift c a) (shift c b) = map2 (\<lambda>t p. f (fsub t p)) a b"
  using assms
proof (induction a b rule: list_induct2)
  case Nil
  then show ?case by (simp add: shift_def)
next
  case (Cons x xs y ys)
  then have "map2 (\<lambda>t p. f (fsub t p)) (shift c xs) (shift c ys) = map2 (\<lambda>t p. f (fsub t p)) xs ys"
    by simp
  moreover have "fsub (fadd x (Finite c)) (fadd y (Finite c)) = fsub x y"
    using Cons.prems by (intro residual_shift) simp_all
  ultimately show ?case by (simp add: shift_def)
qed

lemma deviation_shift:
  "exact_sum c v \<Longrightarrow> fsub (fadd v (Finite c)) (Finite (\<mu> + c)) = fsub v (Finite \<mu>)"
  by (cases v) (simp_all add: fsub_def)

lemma tss64_shift:
  assumes "list_all (exact_sum c) a" and "np_mean a = Finite \<mu>"
    and "np_mean (shift c a) = Finite (\<mu> + c)"
  shows "tss64 (shift c a) = tss64 a"
proof -
  have eq: "map (\<lambda>v. fsquare (fsub (fadd v (Finite c)) (Finite (\<mu> + c)))) a
        = map (\<lambda>v. fsquare (fsub v (Finite \<mu>))) a"
    by (rule map_cong [OF refl]) (use assms(1) in \<open>simp add: list_all_iff deviation_shift\<close>)
  have "tss64 (shift c a)
        = np_sum (map (\<lambda>v. fsquare (fsub (fadd v (Finite c)) (Finite (\<mu> + c)))) a)"
    by (simp add: tss64_def assms(3)) (simp add: shift_def comp_def)
  also have "\<dots> = np_sum (map (\<lambda>v. fsquare (fsub v (Finite \<mu>))) a)"
    by (simp only: eq)
  also have "\<dots> = tss64 a"
    by (simp add: tss64_def assms(2))
  finally show ?thesis .
qed

text \<open>
  The claim C9 takes \<open>y + c\<close> to be the exact sum. With \<open>c = 10\<^sup>1\<^sup>6\<close> the arrays \<open>[1, 2, 3]\<close>
  and \<open>[1, 2, 5]\<close> are both rounded to \<open>[10\<^sup>1\<^sup>6, 10\<^sup>1\<^sup>6 + 2, 10\<^sup>1\<^sup>6 + 4]\<close>: the residual sum of
  squares goes from 4 to 0, the total sum of squares from 2 to 8, the returned \<open>MAE\<close>
  from \<open>6004799503160661 / 2\<^sup>5\<^sup>3\<close> to 0, the returned \<open>R2\<close> from \<open>-1\<close> to 1, and the
  returned \<open>RMSE\<close> becomes 0.
\<close>

theorem shift_changes_metrics:
  "shift 10000000000000000 [Finite 1, Finite 2, Finite 3]
     = [Finite 10000000000000000, Finite 10000000000000002, Finite 10000000000000004] \<and>
   shift 10000000000000000 [Finite 1, Finite 2, Finite 5]
     = [Finite 10000000000000000, Finite 10000000000000002, Finite 10000000000000004] \<and>
   rss_of (F64 [Finite 1, Finite 2, Finite 3]) (F64 [Finite 1, Finite 2, Finite 5])
     = Inr (Float64 (Finite 4)) \<and>
   rss_of (F64 (shift 10000000000000000 [Finite 1, Finite 2, Finite 3]))
          (F64 (shift 10000000000000000 [Finite 1, Finite 2, Finite 5]))
     = Inr (Float64 (Finite 0)) \<and>
   tss_of (F64 [Finite 1, Finite 2, Finite 3]) = Finite 2 \<and>
   tss_of (F64 (shift 10000000000000000 [Finite 1, Finite 2, Finite 3])) = Finite 8 \<and>
   metric ''MAE'' (evaluate_regression (F64 [Finite 1, Finite 2, Finite 3])
                                       (F64 [Finite 1, Finite 2, Finite 5]))
     = Some (Finite (6004799503160661 / 9007199254740992)) \<and>
   metric ''MAE'' (evaluate_regression
                     (F64 (shift 10000000000000000 [Finite 1, Finite 2, Finite 3]))
                     (F64 (shift 10000000000000000 [Finite 1, Finite 2, Finite 5])))
     = Some (Finite 0) \<and>
   metric ''R2'' (evaluate_regression (F64 [Finite 1, Finite 2, Finite 3])
                                      (F64 [Finite 1, Finite 2, Finite 5]))
     = Some (Finite (- 1)) \<and>
   metric ''R2'' (evaluate_regression
                     (F64 (shift 10000000000000000 [Finite 1, Finite 2, Finite 3]))
                     (F64 (shift 10000000000000000 [Finite 1, Finite 2, Finite 5])))
     = Some (Finite 1) \<and>
   metric ''RMSE'' (evaluate_regression
                     (F64 (shift 10000000000000000 [Finite 1, Finite 2, Finite 3]))
                     (F64 (shift 10000000000000000 [Finite 1, Finite 2, Finite 5])))
     = Some (Finite 0)"
proof -
  have s1: "round64 10000000000000001 = Finite 10000000000000000"
    by (subst round64_eval [of 53]) (simp_all add: round_half_even_def Let_def)
  have s2: "round64 10000000000000002 = Finite 10000000000000002"
    by (rule round64_exact [where m = 5000000000000001 and p = 1]) simp_all
  have s3: "round64 10000000000000003 = Finite 10000000000000004"
    by (subst round64_eval [of 53]) (simp_all add: round_half_even_def Let_def)
  have s4: "round64 10000000000000005 = Finite 10000000000000004"
    by (subst round64_eval [of 53]) (simp_all add: round_half_even_def Let_def)
  have sa: "shift 10000000000000000 [Finite 1, Finite 2, Finite 3]
     = [Finite 10000000000000000, Finite 10000000000000002, Finite 10000000000000004]"
    using s1 s2 s3 by (simp add: shift_def)
  have sb: "shift 10000000000000000 [Finite 1, Finite 2, Finite 5]
     = [Finite 10000000000000000, Finite 10000000000000002, Finite 10000000000000004]"
    using s1 s2 s4 by (simp add: shift_def)
  have r1: "round64 (4 / 3) = Finite (6004799503160661 / 4503599627370496)"
    by (subst round64_eval [of 0]) (simp_all add: round_half_even_def Let_def)
  have r2: "round64 (1 / 3) = Finite (6004799503160661 / 18014398509481984)"
    by (subst round64_eval [of "- 2"]) (simp_all add: round_half_even_def Let_def)
  have t1: "round64 10000000000000000 = Finite 10000000000000000"
    by (rule round64_exact [where m = 152587890625 and p = 16]) simp_all
  have t2: "round64 20000000000000002 = Finite 20000000000000000"
    by (subst round64_eval [of 54]) (simp_all add: round_half_even_def Let_def)
  have t3: "round64 30000000000000004 = Finite 30000000000000004"
    by (rule round64_exact [where m = 7500000000000001 and p = 2]) simp_all
  have t4: "round64 (30000000000000004 / 3) = Finite 10000000000000002"
    by (subst round64_eval [of 53]) (simp_all add: round_half_even_def Let_def)
  have plain: "rss64 [Finite 1, Finite 2, Finite 3] [Finite 1, Finite 2, Finite 5] = Finite 4 \<and>
     tss64 [Finite 1, Finite 2, Finite 3] = Finite 2 \<and>
     sae64 [Finite 1, Finite 2, Finite 3] [Finite 1, Finite 2, Finite 5] = Finite 2"
    by (simp add: rss64_def tss64_def sae64_def np_mean_def np_sum_short of_count_def fsub_def
          fsquare_def)
  have moved: "rss64 [Finite 10000000000000000, Finite 10000000000000002, Finite 10000000000000004]
       [Finite 10000000000000000, Finite 10000000000000002, Finite 10000000000000004] = Finite 0 \<and>
     tss64 [Finite 10000000000000000, Finite 10000000000000002, Finite 10000000000000004]
       = Finite 8 \<and>
     sae64 [Finite 10000000000000000, Finite 10000000000000002, Finite 10000000000000004]
       [Finite 10000000000000000, Finite 10000000000000002, Finite 10000000000000004] = Finite 0"
    using t1 t2 t3 t4
    by (simp add: rss64_def tss64_def sae64_def np_mean_def np_sum_short of_count_def fsub_def
          fsquare_def)
  have t: "tss_of (F64 x) = tss64 x" for x
    by (simp add: tss_of_def tss64_def)
  show ?thesis
    unfolding sa sb
    using plain moved r1 r2 round64_dyadic [of 6004799503160661 53]
    by (simp add: rss_of_F64 evaluate_regression_F64 metric_def t of_count_def fsub_def)
qed

text \<open>
  C9, amended: for \<open>float64\<close> arrays \<open>y_true\<close>, \<open>y_pred\<close> of equal length and a constant \<open>c\<close>
  such that the sum of every element with \<open>c\<close> is computed without rounding,
  \<open>evaluate_regression\<close> computes the same residual sum of squares and returns the same
  \<open>RMSE\<close> and \<open>MAE\<close> for \<open>(y_true + c, y_pred + c)\<close> as for \<open>(y_true, y_pred)\<close>; when, in
  addition, the computed mean of \<open>y_true + c\<close> is the computed mean of \<open>y_true\<close> plus \<open>c\<close>, the
  total sum of squares and the returned \<open>R2\<close> are the same too.
\<close>

theorem shift_invariance_when_exact:
  assumes "length a = length b" and "list_all (exact_sum c) (a @ b)"
  shows "rss_of (F64 (shift c a)) (F64 (shift c b)) = rss_of (F64 a) (F64 b) \<and>
         metric ''RMSE'' (evaluate_regression (F64 (shift c a)) (F64 (shift c b)))
           = metric ''RMSE'' (evaluate_regression (F64 a) (F64 b)) \<and>
         metric ''MAE'' (evaluate_regression (F64 (shift c a)) (F64 (shift c b)))
           = metric ''MAE'' (evaluate_regression (F64 a) (F64 b)) \<and>
         (np_mean a = Finite \<mu> \<and> np_mean (shift c a) = Finite (\<mu> + c) \<longrightarrow>
            tss_of (F64 (shift c a)) = tss_of (F64 a) \<and>
            metric ''R2'' (evaluate_regression (F64 (shift c a)) (F64 (shift c b)))
              = metric ''R2'' (evaluate_regression (F64 a) (F64 b)))"
proof (cases "a = []")
  case True
  with assms(1) have "b = []" by simp
  with True show ?thesis by (simp add: shift_def)
next
  case False
  have len: "length (shift c a) = length (shift c b)" "shift c a \<noteq> []" "length (shift c a) = length a"
    using assms(1) False by (simp_all add: shift_def)
  have rss: "rss64 (shift c a) (shift c b) = rss64 a b"
    unfolding rss64_def using residuals_shift [OF assms, of fsquare] by simp
  have sae: "sae64 (shift c a) (shift c b) = sae64 a b"
    unfolding sae64_def using residuals_shift [OF assms, of fabs] by simp
  have tss: "tss64 (shift c a) = tss64 a"
    if "np_mean a = Finite \<mu>" "np_mean (shift c a) = Finite (\<mu> + c)"
    using assms(2) that by (intro tss64_shift [where \<mu> = \<mu>]) simp_all
  have t: "tss_of (F64 x) = tss64 x" for x
    by (simp add: tss_of_def tss64_def)
  show ?thesis
    using assms(1) False len rss sae tss
    by (simp add: rss_of_F64 evaluate_regression_F64 metric_def t)
qed

theorem shift_invariance_when_exact_witness:
  "length [Finite 1, Finite 2, Finite 3] = length [Finite 1, Finite 2, Finite 5] \<and>
   list_all (exact_sum (1 / 2)) ([Finite 1, Finite 2, Finite 3] @ [Finite 1, Finite 2, Finite 5]) \<and>
   shift (1 / 2) [Finite 1, Finite 2, Finite 3] = [Finite (3 / 2), Finite (5 / 2), Finite (7 / 2)] \<and>
   np_mean [Finite 1, Finite 2, Finite 3] = Finite 2 \<and>
   np_mean (shift (1 / 2) [Finite 1, Finite 2, Finite 3]) = Finite (2 + 1 / 2) \<and>
   rss_of (F64 (shift (1 / 2) [Finite 1, Finite 2, Finite 3]))
          (F64 (shift (1 / 2) [Finite 1, Finite 2, Finite 5]))
     = Inr (Float64 (Finite 4)) \<and>
   tss_of (F64 (shift (1 / 2) [Finite 1, Finite 2, Finite 3])) = Finite 2 \<and>
   metric ''R2'' (evaluate_regression (F64 (shift (1 / 2) [Finite 1, Finite 2, Finite 3]))
                                      (F64 (shift (1 / 2) [Finite 1, Finite 2, Finite 5])))
     = Some (Finite (- 1)) \<and>
   metric ''MAE'' (evaluate_regression (F64 (shift (1 / 2) [Finite 1, Finite 2, Finite 3]))
                                       (F64 (shift (1 / 2) [Finite 1, Finite 2, Finite 5])))
     = Some (Finite (6004799503160661 / 9007199254740992)) \<and>
   metric ''RMSE'' (evaluate_regression (F64 (shift (1 / 2) [Finite 1, Finite 2, Finite 3]))
                                        (F64 (shift (1 / 2) [Finite 1, Finite 2, Finite 5])))
     = metric ''RMSE'' (evaluate_regression (F64 [Finite 1, Finite 2, Finite 3])
                                            (F64 [Finite 1, Finite 2, Finite 5]))"
proof -
  note d = round64_dyadic [of 3 1] round64_dyadic [of 5 1] round64_dyadic [of 7 1]
    round64_dyadic [of 11 1] round64_dyadic [of 15 1]
  have e: "list_all (exact_sum (1 / 2)) ([Finite 1, Finite 2, Finite 3] @ [Finite 1, Finite 2, Finite 5])"
    using d by simp
  have s: "shift (1 / 2) [Finite 1, Finite 2, Finite 3] = [Finite (3 / 2), Finite (5 / 2), Finite (7 / 2)]"
    using d by (simp add: shift_def)
  have m: "np_mean [Finite 1, Finite 2, Finite 3] = Finite 2"
    by (simp add: np_mean_def np_sum_short of_count_def)
  have ms: "np_mean (shift (1 / 2) [Finite 1, Finite 2, Finite 3]) = Finite (2 + 1 / 2)"
    unfolding s using d by (simp add: np_mean_def np_sum_short of_count_def)
  have r2: "round64 (1 / 3) = Finite (6004799503160661 / 18014398509481984)"
    by (subst round64_eval [of "- 2"]) (simp_all add: round_half_even_def Let_def)
  have plain: "rss64 [Finite 1, Finite 2, Finite 3] [Finite 1, Finite 2, Finite 5] = Finite 4 \<and>
     tss64 [Finite 1, Finite 2, Finite 3] = Finite 2 \<and>
     sae64 [Finite 1, Finite 2, Finite 3] [Finite 1, Finite 2, Finite 5] = Finite 2"
    by (simp add: rss64_def tss64_def sae64_def np_mean_def np_sum_short of_count_def fsub_def
          fsquare_def)
  have t: "tss_of (F64 x) = tss64 x" for x
    by (simp add: tss_of_def tss64_def)
  have v: "rss_of (F64 [Finite 1, Finite 2, Finite 3]) (F64 [Finite 1, Finite 2, Finite 5])
       = Inr (Float64 (Finite 4)) \<and>
     tss_of (F64 [Finite 1, Finite 2, Finite 3]) = Finite 2 \<and>
     metric ''R2'' (evaluate_regression (F64 [Finite 1, Finite 2, Finite 3])
                                        (F64 [Finite 1, Finite 2, Finite 5])) = Some (Finite (- 1)) \<and>
     metric ''MAE'' (evaluate_regression (F64 [Finite 1, Finite 2, Finite 3])
                                         (F64 [Finite 1, Finite 2, Finite 5]))
       = Some (Finite (6004799503160661 / 9007199254740992))"
    using plain r2 round64_dyadic [of 6004799503160661 53]
    by (simp add: rss_of_F64 evaluate_regression_F64 metric_def t fsub_def)
  show ?thesis
    using e s m ms v
      shift_invariance_when_exact [of "[Finite 1, Finite 2, Finite 3]" "[Finite 1, Finite 2, Finite 5]"
        "1 / 2" 2]
    by simp
qed

section \<open>fit\_multiple in float64 arithmetic\<close>






lemma fadd_range: "fadd a b = Finite r \<Longrightarrow> \<bar>r\<bar> < 2 ^ 1024"
  by (cases a; cases b) (auto dest: round64_range)

lemma np_dot_range:
  assumes "np_dot u v = Finite r"
  shows "\<bar>r\<bar> < 2 ^ 1024"
proof (cases "map2 fmul u v" rule: rev_cases)
  case Nil
  with assms show ?thesis by (simp add: np_dot_def)
next
  case (snoc zs z)
  with assms have "fadd (foldl fadd (Finite 0) zs) z = Finite r"
    by (simp add: np_dot_def)
  then show ?thesis by (rule fadd_range)
qed

text \<open>
  Whatever \<open>np.linalg.inv\<close> returns, a finite value that \<open>fit_multiple\<close> stores is a
  \<open>float64\<close>: its magnitude is below \<open>2\<^sup>1\<^sup>0\<^sup>2\<^sup>4\<close>.
\<close>

lemma fit_multiple_stores_float64:
  assumes "fit_multiple linalg_inv self X y = (self', None)"
  shows "\<exists>w0 ws. intercept self' = Some w0 \<and> coefficients self' = Some (Vector ws) \<and>
           (\<forall>r. Finite r \<in> set (w0 # ws) \<longrightarrow> \<bar>r\<bar> < 2 ^ 1024)"
proof -
  obtain G Gi P w0 ws where
    P: "np_matvec P y = Inr (w0 # ws)" and
    s: "self' = self\<lparr>intercept := Some w0, coefficients := Some (Vector ws)\<rparr>"
    using assms
    by (auto simp: fit_multiple_def Let_def split: sum.splits list.splits)
  have "\<bar>r\<bar> < 2 ^ 1024" if "Finite r \<in> set (w0 # ws)" for r
  proof -
    from P have "w0 # ws = map (\<lambda>r. np_dot r y) (rows P)"
      by (simp add: np_matvec_def split: if_splits)
    with that obtain p where "np_dot p y = Finite r"
      by (metis (no_types, lifting) imageE list.set_map)
    then show ?thesis by (rule np_dot_range)
  qed
  with s show ?thesis by simp
qed




end
